theory Spec2Isabelle
  imports Main
begin

section \<open>The pattern compiler of awpa (patcomp.py)\<close>

text \<open>
  A shallow embedding of \<^verbatim>\<open>PatternCompiler.compile_node\<close>,
  \<^verbatim>\<open>PatternCompiler.compile_basic\<close>, \<^verbatim>\<open>PatternCompiler.get_int\<close> and
  \<^verbatim>\<open>_type_of_literal\<close> of \<^verbatim>\<open>src/awpa/patcomp.py\<close>. Every exception the
  Python can raise is a value of \<open>error\<close>; a function that can raise returns
  \<open>error + 'a\<close>, with \<open>Inl\<close> the exception.
\<close>

subsection \<open>Exceptions\<close>

text \<open>
  The three messages of \<^verbatim>\<open>PatternSyntaxError\<close> in patcomp.py; the string is the
  value formatted with \<^verbatim>\<open>%r\<close>.
\<close>

datatype message = Invalid_token string | Cant_have_details_for_token | Invalid_symbol string

datatype error =
    PatternSyntaxError message
  | AssertionError
  | IndexError
  | AttributeError
  | UnboundLocalError
  | ValueError

subsection \<open>The pattern syntax tree\<close>

text \<open>
  Modelled from the spec: the classes \<^verbatim>\<open>pytree.Leaf\<close> and \<^verbatim>\<open>pytree.Node\<close>
  are not in patcomp.py. A node is "a discriminated node with a kind tag and an ordered
  sequence of children (or, for leaves, a kind tag plus literal text and no children)".
  \<^verbatim>\<open>pattern_convert\<close> builds a \<open>Node\<close> for every type that is a symbol of the
  pattern grammar and a \<open>Leaf\<close> for every token, so a leaf carries a token type and a
  node a symbol. The token types are the ones patcomp.py compares with; every other
  token of the pattern grammar (parentheses, brackets, \<^verbatim>\<open>|\<close>, \<^verbatim>\<open>,\<close>, the end
  marker) is \<open>OtherToken\<close>.
\<close>

datatype token = STRING | NAME | NUMBER | EQUAL | STAR | PLUS | LBRACE | RBRACE | OtherToken nat

datatype symbol = Matcher | Alternatives | Alternative | NegatedUnit | Unit | Repeater | Details

datatype tree = Leaf token string | Node symbol "tree list"

datatype ntype = Tok token | Sym symbol

fun type_of :: "tree \<Rightarrow> ntype" where
  "type_of (Leaf t v) = Tok t"
| "type_of (Node s cs) = Sym s"

text \<open>\<^verbatim>\<open>node.children\<close>: a leaf has no children.\<close>

fun children_of :: "tree \<Rightarrow> tree list" where
  "children_of (Leaf t v) = []"
| "children_of (Node s cs) = cs"

text \<open>\<^verbatim>\<open>node.value\<close>: only a leaf has the attribute.\<close>

fun value_of :: "tree \<Rightarrow> error + string" where
  "value_of (Leaf t v) = Inr v"
| "value_of (Node s cs) = Inl AttributeError"

subsection \<open>The matcher nodes\<close>

text \<open>
  Modelled from the spec: the classes \<^verbatim>\<open>pytree.LeafPattern\<close>,
  \<^verbatim>\<open>pytree.NodePattern\<close>, \<^verbatim>\<open>pytree.WildcardPattern\<close> and
  \<^verbatim>\<open>pytree.NegatedPattern\<close> are not in patcomp.py. The spec gives
  \<open>LeafMatch {kind, value}\<close>, \<open>NodeMatch {kind, content, name}\<close>,
  \<open>WildcardMatch {alternatives, min, max, name}\<close> and \<open>NegatedMatch {inner}\<close>.
  The constructors of the datatype store their arguments; what the constructor of
  \<^verbatim>\<open>WildcardPattern\<close> checks is in \<open>WildcardPattern_init\<close> below. The last
  field of each is the attribute \<^verbatim>\<open>name\<close>, which \<^verbatim>\<open>compile_node\<close> assigns
  on whatever pattern object it holds (line 138), so every variant has it.
\<close>

datatype pattern =
    LeafPattern "int option" "string option" "string option"
  | NodePattern "int option" "pattern list option" "string option"
  | WildcardPattern "pattern list list" int int "string option"
  | NegatedPattern pattern "string option"

text \<open>
  Modelled from the spec: the constant \<^verbatim>\<open>pytree.HUGE\<close> is not in patcomp.py. It is
  the spec's distinguished "infinite" sentinel for an unbounded upper bound, the largest
  bound a wildcard can have: \<^verbatim>\<open>0x7FFFFFFF\<close>.
\<close>

definition HUGE :: int where
  "HUGE = 2147483647"

text \<open>
  Modelled from the spec: the constructor of \<^verbatim>\<open>pytree.WildcardPattern\<close> is not in
  patcomp.py. The spec gives a wildcard "min: integer \<open>\<ge>\<close> 0, max: integer \<open>\<ge>\<close> min"
  (invariant \<open>max \<ge> min \<ge> 0\<close>), with the sentinel as the unbounded upper bound: the
  constructor asserts \<^verbatim>\<open>0 <= min <= max <= HUGE\<close> and raises \<^verbatim>\<open>AssertionError\<close>
  on other bounds. patcomp.py never passes a name, so the new pattern has none.
\<close>

definition WildcardPattern_init :: "pattern list list \<Rightarrow> int \<Rightarrow> int \<Rightarrow> error + pattern" where
  "WildcardPattern_init content mn mx =
     (if 0 \<le> mn \<and> mn \<le> mx \<and> mx \<le> HUGE then Inr (WildcardPattern content mn mx None)
      else Inl AssertionError)"

text \<open>\<^verbatim>\<open>pattern.name = name\<close> (line 138).\<close>

fun set_name :: "string \<Rightarrow> pattern \<Rightarrow> pattern" where
  "set_name n (LeafPattern t v old) = LeafPattern t v (Some n)"
| "set_name n (NodePattern t c old) = NodePattern t c (Some n)"
| "set_name n (WildcardPattern alts mn mx old) = WildcardPattern alts mn mx (Some n)"
| "set_name n (NegatedPattern p old) = NegatedPattern p (Some n)"

fun name_of :: "pattern \<Rightarrow> string option" where
  "name_of (LeafPattern t v n) = n"
| "name_of (NodePattern t c n) = n"
| "name_of (WildcardPattern alts mn mx n) = n"
| "name_of (NegatedPattern p n) = n"

subsection \<open>The collaborators\<close>

text \<open>
  What patcomp.py takes from outside itself, as parameters of the compiler:
  \<^item> \<open>token_NAME\<close>, \<open>token_STRING\<close>, \<open>token_NUMBER\<close>: \<^verbatim>\<open>pygram.token.NAME\<close>,
    \<^verbatim>\<open>.STRING\<close>, \<^verbatim>\<open>.NUMBER\<close>, the lexical kinds of the target grammar;
  \<^item> \<open>opmap\<close>: the dictionary \<^verbatim>\<open>pygram.token.opmap\<close>;
  \<^item> \<open>symbols\<close>: the attributes of \<^verbatim>\<open>pygram.symbols\<close>, read with
    \<^verbatim>\<open>getattr(self.pygram.symbols, value, None)\<close>;
  \<^item> \<open>evalString\<close>: \<^verbatim>\<open>literals.evalString\<close>, which may raise;
  \<^item> \<open>optimize\<close>: the method \<^verbatim>\<open>optimize()\<close> of the pattern classes.
\<close>

record externals =
  token_NAME :: int
  token_STRING :: int
  token_NUMBER :: int
  opmap :: "string \<rightharpoonup> int"
  symbols :: "string \<rightharpoonup> int"
  evalString :: "string \<Rightarrow> error + string"
  optimize :: "pattern \<Rightarrow> pattern"

text \<open>\<^verbatim>\<open>self.token_map\<close> (lines 51 to 54); \<open>TOKEN\<close> maps to \<^verbatim>\<open>None\<close>.\<close>

definition token_map :: "externals \<Rightarrow> string \<rightharpoonup> int option" where
  "token_map g =
     [''NAME'' \<mapsto> Some (token_NAME g),
      ''STRING'' \<mapsto> Some (token_STRING g),
      ''NUMBER'' \<mapsto> Some (token_NUMBER g),
      ''TOKEN'' \<mapsto> None]"

subsection \<open>Python's string methods, on ASCII text\<close>

text \<open>
  Strings are ASCII text: a character is a letter when it is one of \<open>A\<close> to \<open>Z\<close> or
  \<open>a\<close> to \<open>z\<close>. \<^verbatim>\<open>str.isupper\<close> holds when the string has a cased character and
  none of its cased characters is lowercase.
\<close>

definition isupper_char :: "char \<Rightarrow> bool" where
  "isupper_char c = (let n = (of_char c :: nat) in 65 \<le> n \<and> n \<le> 90)"

definition islower_char :: "char \<Rightarrow> bool" where
  "islower_char c = (let n = (of_char c :: nat) in 97 \<le> n \<and> n \<le> 122)"

definition isalpha_char :: "char \<Rightarrow> bool" where
  "isalpha_char c = (isupper_char c \<or> islower_char c)"

definition isdigit_char :: "char \<Rightarrow> bool" where
  "isdigit_char c = (let n = (of_char c :: nat) in 48 \<le> n \<and> n \<le> 57)"

definition isspace_char :: "char \<Rightarrow> bool" where
  "isspace_char c = (let n = (of_char c :: nat) in (9 \<le> n \<and> n \<le> 13) \<or> n = 32)"

definition isupper :: "string \<Rightarrow> bool" where
  "isupper s = (list_ex isupper_char s \<and> \<not> list_ex islower_char s)"

definition startswith :: "string \<Rightarrow> string \<Rightarrow> bool" where
  "startswith s p = (take (length p) s = p)"

text \<open>
  \<^verbatim>\<open>int(text)\<close>: surrounding whitespace (the characters 9 to 13 and the space) is
  stripped, one sign is allowed, and the rest is decimal digits, with single underscores allowed between digits; anything
  else raises \<^verbatim>\<open>ValueError\<close>. In \<open>int_digits\<close> the flag says that the previous
  character was a digit.
\<close>

fun int_digits :: "string \<Rightarrow> bool \<Rightarrow> int \<Rightarrow> int option" where
  "int_digits [] prev acc = (if prev then Some acc else None)"
| "int_digits (c # cs) prev acc =
     (if isdigit_char c then int_digits cs True (10 * acc + (int (of_char c) - 48))
      else if c = CHR ''_'' \<and> prev then int_digits cs False acc
      else None)"

definition strip :: "string \<Rightarrow> string" where
  "strip s = rev (dropWhile isspace_char (rev (dropWhile isspace_char s)))"

definition py_int :: "string \<Rightarrow> error + int" where
  "py_int s =
     (let t = strip s;
          neg = (case t of [] \<Rightarrow> False | c # r \<Rightarrow> c = CHR ''-'');
          u = (case t of [] \<Rightarrow> [] | c # r \<Rightarrow> if c = CHR ''-'' \<or> c = CHR ''+'' then r else t)
      in case int_digits u False 0 of
           None \<Rightarrow> Inl ValueError
         | Some n \<Rightarrow> Inr (if neg then - n else n))"

subsection \<open>Helpers of the compiler\<close>

text \<open>\<^verbatim>\<open>get_int\<close> (lines 178 to 180).\<close>

definition get_int :: "tree \<Rightarrow> error + int" where
  "get_int node =
     (if type_of node = Tok NUMBER
      then (case value_of node of Inl e \<Rightarrow> Inl e | Inr v \<Rightarrow> py_int v)
      else Inl AssertionError)"

text \<open>
  \<^verbatim>\<open>_type_of_literal\<close> (lines 183 to 187): \<^verbatim>\<open>value[0]\<close> raises
  \<^verbatim>\<open>IndexError\<close> on the empty string; \<^verbatim>\<open>opmap.get(value)\<close> is \<^verbatim>\<open>None\<close> for a
  missing key.
\<close>

definition type_of_literal :: "externals \<Rightarrow> string \<Rightarrow> error + int option" where
  "type_of_literal g v =
     (case v of
        [] \<Rightarrow> Inl IndexError
      | c # cs \<Rightarrow> if isalpha_char c then Inr (Some (token_NAME g)) else Inr (opmap g v))"

text \<open>\<^verbatim>\<open>children[::2]\<close> (line 82).\<close>

fun every_other :: "'a list \<Rightarrow> 'a list" where
  "every_other [] = []"
| "every_other [x] = [x]"
| "every_other (x # y # xs) = x # every_other xs"

text \<open>
  A list comprehension over calls that may raise: the results in order, or the first
  exception.
\<close>

fun sequence :: "(error + 'a) list \<Rightarrow> error + 'a list" where
  "sequence [] = Inr []"
| "sequence (r # rs) =
     (case r of
        Inl e \<Rightarrow> Inl e
      | Inr x \<Rightarrow> (case sequence rs of Inl e \<Rightarrow> Inl e | Inr xs \<Rightarrow> Inr (x # xs)))"

text \<open>Lines 77 and 78: a \<open>Matcher\<close> node is replaced by its first child, once.\<close>

definition unwrap_Matcher :: "tree \<Rightarrow> error + tree" where
  "unwrap_Matcher node =
     (if type_of node = Sym Matcher
      then (case children_of node of [] \<Rightarrow> Inl IndexError | c # cs \<Rightarrow> Inr c)
      else Inr node)"

text \<open>
  Lines 102 to 106: the capture name and the children that remain.
\<close>

definition split_name :: "tree list \<Rightarrow> error + (string option \<times> tree list)" where
  "split_name nodes =
     (if 3 \<le> length nodes \<and> type_of (nodes ! 1) = Tok EQUAL
      then (case value_of (nodes ! 0) of
              Inl e \<Rightarrow> Inl e
            | Inr v \<Rightarrow> Inr (Some v, drop 2 nodes))
      else Inr (None, nodes))"

text \<open>Lines 107 to 110: the repeater and the children that remain.\<close>

definition split_repeat :: "tree list \<Rightarrow> tree option \<times> tree list" where
  "split_repeat nodes =
     (if 2 \<le> length nodes \<and> type_of (last nodes) = Sym Repeater
      then (Some (last nodes), butlast nodes)
      else (None, nodes))"

text \<open>
  Lines 116 to 132: the bounds \<^verbatim>\<open>(min, max)\<close> of a repeater. The assertion of
  line 116 holds of every repeater \<open>split_repeat\<close> returns.
\<close>

definition repeat_min_max :: "externals \<Rightarrow> tree \<Rightarrow> error + (int \<times> int)" where
  "repeat_min_max g repeat =
     (if type_of repeat = Sym Repeater then
        (case children_of repeat of
           [] \<Rightarrow> Inl IndexError
         | child # cs \<Rightarrow>
             if type_of child = Tok STAR then Inr (0, HUGE)
             else if type_of child = Tok PLUS then Inr (1, HUGE)
             else if type_of child = Tok LBRACE then
               (let children = children_of repeat in
                if type_of (last children) = Tok RBRACE then
                  if length children = 3 \<or> length children = 5 then
                    (case get_int (children ! 1) of
                       Inl e \<Rightarrow> Inl e
                     | Inr n \<Rightarrow>
                         if length children = 5
                         then (case get_int (children ! 3) of
                                 Inl e \<Rightarrow> Inl e
                               | Inr m \<Rightarrow> Inr (n, m))
                         else Inr (n, n))
                  else Inl AssertionError
                else Inl AssertionError)
             else Inl AssertionError)
      else Inl AssertionError)"

text \<open>
  Lines 133 to 135: the pattern is optimized and wrapped unless \<open>min = max = 1\<close>; the
  constructor of the wrapper raises on bounds it does not accept.
\<close>

definition wrap_repeat :: "externals \<Rightarrow> int \<times> int \<Rightarrow> pattern \<Rightarrow> error + pattern" where
  "wrap_repeat g b pattern =
     (if fst b = 1 \<and> snd b = 1 then Inr pattern
      else WildcardPattern_init [[optimize g pattern]] (fst b) (snd b))"

text \<open>Lines 137 and 138.\<close>

definition apply_name :: "string option \<Rightarrow> pattern \<Rightarrow> pattern" where
  "apply_name name pattern = (case name of None \<Rightarrow> pattern | Some n \<Rightarrow> set_name n pattern)"

text \<open>
  A local variable of Python that a path may leave unassigned: reading it while it is
  \<open>Unbound\<close> raises \<^verbatim>\<open>UnboundLocalError\<close>.
\<close>

datatype 'a local_var = Unbound | Bound 'a

text \<open>
  Lines 159 to 164: the local \<^verbatim>\<open>type\<close> of \<^verbatim>\<open>compile_basic\<close> for a name that is
  not uppercase. No branch assigns it when the name starts with an underscore.
\<close>

definition symbol_type :: "externals \<Rightarrow> string \<Rightarrow> error + int option local_var" where
  "symbol_type g v =
     (if v = ''any'' then Inr (Bound None)
      else if \<not> startswith v ''_'' then
        (case symbols g v of
           None \<Rightarrow> Inl (PatternSyntaxError (Invalid_symbol v))
         | Some t \<Rightarrow> Inr (Bound (Some t)))
      else Inr Unbound)"

subsection \<open>compile_node and compile_basic\<close>

lemma size_every_other: "x \<in> set (every_other xs) \<Longrightarrow> x \<in> set xs"
  by (induction xs rule: every_other.induct) auto

lemma size_in_children: "x \<in> set xs \<Longrightarrow> size (x :: tree) < Suc (size_list size xs)"
  by (induction xs) auto

lemma size_child: "x \<in> set (children_of b) \<Longrightarrow> size x < size b"
  by (cases b) (auto dest: size_in_children)

lemma size_children: "size_list size (children_of b) \<le> size b"
  by (cases b) auto

lemma size_drop_child: "drop k (children_of b) = x # xs \<Longrightarrow> size x < size b"
proof -
  assume "drop k (children_of b) = x # xs"
  then have "x \<in> set (drop k (children_of b))" by simp
  then have "x \<in> set (children_of b)" by (rule in_set_dropD)
  then show ?thesis by (rule size_child)
qed

lemma size_unwrap_Matcher: "unwrap_Matcher n = Inr m \<Longrightarrow> size m \<le> size n"
  by (cases n) (auto simp: unwrap_Matcher_def split: if_splits list.splits)

lemma size_list_drop: "size_list f (drop k xs) \<le> size_list f xs"
  by (induction xs arbitrary: k) (auto simp: drop_Cons split: nat.splits intro: le_SucI trans_le_add2)

lemma size_list_butlast: "size_list f (butlast xs) \<le> size_list f xs"
  by (induction xs) auto

lemma size_split_name: "split_name nodes = Inr (name, rest) \<Longrightarrow> size_list size rest \<le> size_list size nodes"
  by (auto simp: split_name_def size_list_drop split: if_splits sum.splits)

lemma size_split_repeat: "split_repeat nodes = (r, rest) \<Longrightarrow> size_list size rest \<le> size_list size nodes"
  by (auto simp: split_repeat_def size_list_butlast split: if_splits)

lemma term_alts:
  "unwrap_Matcher node0 = Inr b \<Longrightarrow> x \<in> set (every_other (children_of b)) \<Longrightarrow> size x < size node0"
  using size_unwrap_Matcher [of node0 b] size_child [of x b] size_every_other [of x "children_of b"]
  by simp

lemma term_units:
  "unwrap_Matcher node0 = Inr b \<Longrightarrow> x \<in> set (children_of b) \<Longrightarrow> size x < size node0"
  using size_unwrap_Matcher [of node0 b] size_child [of x b]
  by simp

lemma term_negated:
  "unwrap_Matcher node0 = Inr b \<Longrightarrow> size_list size (drop k (children_of b)) \<le> size node0"
  using size_unwrap_Matcher [of node0 b] size_children [of b] size_list_drop [of size k "children_of b"]
  by simp

lemma term_unit:
  "unwrap_Matcher node0 = Inr b \<Longrightarrow> split_name (children_of b) = Inr (x, y) \<Longrightarrow>
   (xa, ya) = split_repeat y \<Longrightarrow> size_list size ya \<le> size node0"
  using size_unwrap_Matcher [of node0 b] size_children [of b]
    size_split_name [of "children_of b" x y] size_split_repeat [of y xa ya]
  by simp

function compile_node :: "externals \<Rightarrow> tree \<Rightarrow> error + pattern"
  and compile_basic :: "externals \<Rightarrow> tree list \<Rightarrow> tree option \<Rightarrow> error + pattern"
where
  "compile_node g node0 =
     (case unwrap_Matcher node0 of
        Inl e \<Rightarrow> Inl e
      | Inr node \<Rightarrow>
          if type_of node = Sym Alternatives then
            (case sequence (map (compile_node g) (every_other (children_of node))) of
               Inl e \<Rightarrow> Inl e
             | Inr alts \<Rightarrow>
                 if length alts = 1 then Inr (alts ! 0)
                 else (case WildcardPattern_init (map (\<lambda>a. [a]) alts) 1 1 of
                         Inl e \<Rightarrow> Inl e
                       | Inr p \<Rightarrow> Inr (optimize g p)))
          else if type_of node = Sym Alternative then
            (case sequence (map (compile_node g) (children_of node)) of
               Inl e \<Rightarrow> Inl e
             | Inr units \<Rightarrow>
                 if length units = 1 then Inr (units ! 0)
                 else (case WildcardPattern_init [units] 1 1 of
                         Inl e \<Rightarrow> Inl e
                       | Inr p \<Rightarrow> Inr (optimize g p)))
          else if type_of node = Sym NegatedUnit then
            (case compile_basic g (drop 1 (children_of node)) None of
               Inl e \<Rightarrow> Inl e
             | Inr pattern \<Rightarrow> Inr (optimize g (NegatedPattern pattern None)))
          else if type_of node = Sym Unit then
            (case split_name (children_of node) of
               Inl e \<Rightarrow> Inl e
             | Inr (name, nodes1) \<Rightarrow>
                 (case split_repeat nodes1 of
                    (repeat, nodes) \<Rightarrow>
                      (case compile_basic g nodes repeat of
                         Inl e \<Rightarrow> Inl e
                       | Inr pattern \<Rightarrow>
                           (case repeat of
                              None \<Rightarrow> Inr (optimize g (apply_name name pattern))
                            | Some r \<Rightarrow>
                                (case repeat_min_max g r of
                                   Inl e \<Rightarrow> Inl e
                                 | Inr b \<Rightarrow>
                                     (case wrap_repeat g b pattern of
                                        Inl e \<Rightarrow> Inl e
                                      | Inr wrapped \<Rightarrow>
                                          Inr (optimize g (apply_name name wrapped))))))))
          else Inl AssertionError)"
| "compile_basic g nodes repeat =
     (case nodes of
        [] \<Rightarrow> Inl AssertionError
      | node # rest \<Rightarrow>
          if type_of node = Tok STRING then
            (case value_of node of
               Inl e \<Rightarrow> Inl e
             | Inr v \<Rightarrow>
                 (case evalString g v of
                    Inl e \<Rightarrow> Inl e
                  | Inr s \<Rightarrow>
                      (case type_of_literal g s of
                         Inl e \<Rightarrow> Inl e
                       | Inr t \<Rightarrow> Inr (LeafPattern t (Some s) None))))
          else if type_of node = Tok NAME then
            (case value_of node of
               Inl e \<Rightarrow> Inl e
             | Inr v \<Rightarrow>
                 if isupper v then
                   (case token_map g v of
                      None \<Rightarrow> Inl (PatternSyntaxError (Invalid_token v))
                    | Some t \<Rightarrow>
                        if rest \<noteq> [] then Inl (PatternSyntaxError Cant_have_details_for_token)
                        else Inr (LeafPattern t None None))
                 else
                   (case symbol_type g v of
                      Inl e \<Rightarrow> Inl e
                    | Inr ty \<Rightarrow>
                        (case (case rest of
                                 [] \<Rightarrow> Inr None
                               | details # others \<Rightarrow>
                                   (case drop 1 (children_of details) of
                                      [] \<Rightarrow> Inl IndexError
                                    | inner # after \<Rightarrow>
                                        (case compile_node g inner of
                                           Inl e \<Rightarrow> Inl e
                                         | Inr p \<Rightarrow> Inr (Some [p])))) of
                           Inl e \<Rightarrow> Inl e
                         | Inr content \<Rightarrow>
                             (case ty of
                                Unbound \<Rightarrow> Inl UnboundLocalError
                              | Bound t \<Rightarrow> Inr (NodePattern t content None)))))
          else
            (case value_of node of
               Inl e \<Rightarrow> Inl e
             | Inr v \<Rightarrow>
                 if v = ''('' then
                   (case rest of
                      [] \<Rightarrow> Inl IndexError
                    | inner # others \<Rightarrow> compile_node g inner)
                 else if v = ''['' then
                   (if repeat \<noteq> None then Inl AssertionError
                    else (case rest of
                            [] \<Rightarrow> Inl IndexError
                          | inner # others \<Rightarrow>
                              (case compile_node g inner of
                                 Inl e \<Rightarrow> Inl e
                               | Inr subpattern \<Rightarrow>
                                   WildcardPattern_init [[subpattern]] 0 1)))
                 else Inl AssertionError))"
  by pat_completeness auto

termination compile_node
  apply (relation "measure (\<lambda>x. case x of
          Inl (g, node) \<Rightarrow> 2 * size node + 1
        | Inr (g, nodes, repeat) \<Rightarrow> 2 * size_list size nodes)")
  apply simp_all
  subgoal by (rule term_alts)
  subgoal by (rule term_units)
  subgoal for node0 b using term_negated [of node0 b "Suc 0"] by simp
  subgoal for node0 b ba x y xa ya using term_unit [of node0 b x y xa ya] by simp
  subgoal for g nodes x21 x22 b ba x21a x22a x21b x22b
    using size_drop_child [of "Suc 0" x21a x21b x22b] by simp
  done

declare compile_node.simps [simp del]
declare compile_basic.simps [simp del]

subsection \<open>Unfolding the compiler on each kind of node\<close>

text \<open>
  Lines 165 to 168 of \<^verbatim>\<open>compile_basic\<close>: the \<^verbatim>\<open>content\<close> of a node pattern,
  \<^verbatim>\<open>[self.compile_node(nodes[1].children[1])]\<close> when further children follow the
  name and \<^verbatim>\<open>None\<close> otherwise.
\<close>

definition details_content :: "externals \<Rightarrow> tree list \<Rightarrow> error + pattern list option" where
  "details_content g rest =
     (case rest of
        [] \<Rightarrow> Inr None
      | details # others \<Rightarrow>
          (case drop 1 (children_of details) of
             [] \<Rightarrow> Inl IndexError
           | inner # after \<Rightarrow>
               (case compile_node g inner of
                  Inl e \<Rightarrow> Inl e
                | Inr p \<Rightarrow> Inr (Some [p]))))"

text \<open>
  A sample of collaborators, for evaluating the compiler on concrete trees: the token
  numbers 1, 2, 3 for \<open>NAME\<close>, \<open>NUMBER\<close> and \<open>STRING\<close>, 14 for the operator
  \<^verbatim>\<open>+\<close>, one symbol \<open>expr\<close>, a literal evaluator that drops the two quotes of a
  literal without escapes, and an \<open>optimize\<close> that returns its pattern.
\<close>

definition sample :: externals where
  "sample = \<lparr>token_NAME = 1, token_STRING = 3, token_NUMBER = 2,
     opmap = [''+'' \<mapsto> 14], symbols = [''expr'' \<mapsto> 300],
     evalString = (\<lambda>s. Inr (butlast (tl s))), optimize = (\<lambda>p. p)\<rparr>"

lemma WildcardPattern_init_accepts:
  "0 \<le> mn \<Longrightarrow> mn \<le> mx \<Longrightarrow> mx \<le> HUGE \<Longrightarrow>
   WildcardPattern_init content mn mx = Inr (WildcardPattern content mn mx None)"
  by (simp add: WildcardPattern_init_def)

lemma WildcardPattern_init_rejects:
  "\<not> (0 \<le> mn \<and> mn \<le> mx \<and> mx \<le> HUGE) \<Longrightarrow>
   WildcardPattern_init content mn mx = Inl AssertionError"
  by (simp add: WildcardPattern_init_def)

lemma WildcardPattern_init_0_1 [simp]:
  "WildcardPattern_init content 0 1 = Inr (WildcardPattern content 0 1 None)"
  by (simp add: WildcardPattern_init_def HUGE_def)

lemma WildcardPattern_init_1_1 [simp]:
  "WildcardPattern_init content 1 1 = Inr (WildcardPattern content 1 1 None)"
  by (simp add: WildcardPattern_init_def HUGE_def)

lemma WildcardPattern_init_0_HUGE [simp]:
  "WildcardPattern_init content 0 HUGE = Inr (WildcardPattern content 0 HUGE None)"
  by (simp add: WildcardPattern_init_def HUGE_def)

lemma compile_node_Leaf [simp]: "compile_node g (Leaf t v) = Inl AssertionError"
  by (simp add: compile_node.simps unwrap_Matcher_def)

lemma compile_node_Alternatives:
  "compile_node g (Node Alternatives cs) =
     (case sequence (map (compile_node g) (every_other cs)) of
        Inl e \<Rightarrow> Inl e
      | Inr alts \<Rightarrow>
          if length alts = 1 then Inr (alts ! 0)
          else (case WildcardPattern_init (map (\<lambda>a. [a]) alts) 1 1 of
                  Inl e \<Rightarrow> Inl e
                | Inr p \<Rightarrow> Inr (optimize g p)))"
  by (simp add: compile_node.simps [of g "Node Alternatives cs"] unwrap_Matcher_def)

lemma compile_node_Alternative:
  "compile_node g (Node Alternative cs) =
     (case sequence (map (compile_node g) cs) of
        Inl e \<Rightarrow> Inl e
      | Inr units \<Rightarrow>
          if length units = 1 then Inr (units ! 0)
          else (case WildcardPattern_init [units] 1 1 of
                  Inl e \<Rightarrow> Inl e
                | Inr p \<Rightarrow> Inr (optimize g p)))"
  by (simp add: compile_node.simps [of g "Node Alternative cs"] unwrap_Matcher_def)

lemma compile_node_NegatedUnit [simp]:
  "compile_node g (Node NegatedUnit cs) =
     (case compile_basic g (drop 1 cs) None of
        Inl e \<Rightarrow> Inl e
      | Inr pattern \<Rightarrow> Inr (optimize g (NegatedPattern pattern None)))"
  by (simp add: compile_node.simps [of g "Node NegatedUnit cs"] unwrap_Matcher_def)

lemma compile_node_Unit:
  "compile_node g (Node Unit cs) =
     (case split_name cs of
        Inl e \<Rightarrow> Inl e
      | Inr (name, nodes1) \<Rightarrow>
          (case split_repeat nodes1 of
             (repeat, nodes) \<Rightarrow>
               (case compile_basic g nodes repeat of
                  Inl e \<Rightarrow> Inl e
                | Inr pattern \<Rightarrow>
                    (case repeat of
                       None \<Rightarrow> Inr (optimize g (apply_name name pattern))
                     | Some r \<Rightarrow>
                         (case repeat_min_max g r of
                            Inl e \<Rightarrow> Inl e
                          | Inr b \<Rightarrow>
                              (case wrap_repeat g b pattern of
                                 Inl e \<Rightarrow> Inl e
                               | Inr wrapped \<Rightarrow>
                                   Inr (optimize g (apply_name name wrapped))))))))"
  by (simp add: compile_node.simps [of g "Node Unit cs"] unwrap_Matcher_def)

lemma compile_node_Repeater [simp]: "compile_node g (Node Repeater cs) = Inl AssertionError"
  by (simp add: compile_node.simps [of g "Node Repeater cs"] unwrap_Matcher_def)

lemma compile_node_Details [simp]: "compile_node g (Node Details cs) = Inl AssertionError"
  by (simp add: compile_node.simps [of g "Node Details cs"] unwrap_Matcher_def)

lemma compile_node_Matcher_Nil [simp]: "compile_node g (Node Matcher []) = Inl IndexError"
  by (simp add: compile_node.simps [of g "Node Matcher []"] unwrap_Matcher_def)

lemma compile_node_Matcher:
  "type_of c \<noteq> Sym Matcher \<Longrightarrow> compile_node g (Node Matcher (c # cs)) = compile_node g c"
  by (simp add: compile_node.simps [of g "Node Matcher (c # cs)"] compile_node.simps [of g c]
      unwrap_Matcher_def)

lemma compile_basic_Nil [simp]: "compile_basic g [] r = Inl AssertionError"
  by (simp add: compile_basic.simps)

lemma compile_basic_Node [simp]: "compile_basic g (Node s cs # rest) r = Inl AttributeError"
  by (simp add: compile_basic.simps)

lemma compile_basic_STRING:
  "compile_basic g (Leaf STRING v # rest) r =
     (case evalString g v of
        Inl e \<Rightarrow> Inl e
      | Inr s \<Rightarrow>
          (case type_of_literal g s of
             Inl e \<Rightarrow> Inl e
           | Inr t \<Rightarrow> Inr (LeafPattern t (Some s) None)))"
  by (simp add: compile_basic.simps)

lemma compile_basic_NAME:
  "compile_basic g (Leaf NAME v # rest) r =
     (if isupper v then
        (case token_map g v of
           None \<Rightarrow> Inl (PatternSyntaxError (Invalid_token v))
         | Some t \<Rightarrow>
             if rest \<noteq> [] then Inl (PatternSyntaxError Cant_have_details_for_token)
             else Inr (LeafPattern t None None))
      else
        (case symbol_type g v of
           Inl e \<Rightarrow> Inl e
         | Inr ty \<Rightarrow>
             (case details_content g rest of
                Inl e \<Rightarrow> Inl e
              | Inr content \<Rightarrow>
                  (case ty of
                     Unbound \<Rightarrow> Inl UnboundLocalError
                   | Bound t \<Rightarrow> Inr (NodePattern t content None)))))"
  by (simp add: compile_basic.simps details_content_def split: sum.splits)

lemma compile_basic_other:
  "t \<noteq> STRING \<Longrightarrow> t \<noteq> NAME \<Longrightarrow>
   compile_basic g (Leaf t v # rest) r =
     (if v = ''('' then
        (case rest of [] \<Rightarrow> Inl IndexError | inner # others \<Rightarrow> compile_node g inner)
      else if v = ''['' then
        (if r \<noteq> None then Inl AssertionError
         else (case rest of
                 [] \<Rightarrow> Inl IndexError
               | inner # others \<Rightarrow>
                   (case compile_node g inner of
                      Inl e \<Rightarrow> Inl e
                    | Inr subpattern \<Rightarrow> WildcardPattern_init [[subpattern]] 0 1)))
      else Inl AssertionError)"
  by (simp add: compile_basic.simps)

lemma compile_node_Alternatives_single [simp]:
  "compile_node g (Node Alternatives [a]) = compile_node g a"
  by (cases "compile_node g a") (simp_all add: compile_node_Alternatives)

lemma compile_node_Alternative_single [simp]:
  "compile_node g (Node Alternative [u]) = compile_node g u"
  by (cases "compile_node g u") (simp_all add: compile_node_Alternative)

lemma sample_fields [simp]:
  "token_NAME sample = 1" "token_STRING sample = 3" "token_NUMBER sample = 2"
  "opmap sample = [''+'' \<mapsto> 14]" "symbols sample = [''expr'' \<mapsto> 300]"
  "evalString sample s = Inr (butlast (tl s))" "optimize sample p = p"
  by (simp_all add: sample_def)

lemma isupper_NAME [simp]: "isupper ''NAME''"
  by (simp add: isupper_def isupper_char_def islower_char_def)

lemma token_map_NAME [simp]: "token_map g ''NAME'' = Some (Some (token_NAME g))"
  by (simp add: token_map_def)

lemma compile_basic_NAME_token [simp]:
  "compile_basic g [Leaf NAME ''NAME''] r = Inr (LeafPattern (Some (token_NAME g)) None None)"
  by (simp add: compile_basic_NAME)

lemma split_name_single [simp]: "split_name [n] = Inr (None, [n])"
  by (simp add: split_name_def)

lemma split_repeat_single [simp]: "split_repeat [n] = (None, [n])"
  by (simp add: split_repeat_def)

lemma compile_node_Unit_single:
  "compile_node g (Node Unit [n]) =
     (case compile_basic g [n] None of Inl e \<Rightarrow> Inl e | Inr p \<Rightarrow> Inr (optimize g p))"
  by (simp add: compile_node_Unit apply_name_def split: sum.splits)

text \<open>
  The conditions under which the spec lists a \<^verbatim>\<open>PatternSyntaxError\<close> for a \<open>NAME\<close>
  leaf of text \<open>v\<close> followed by the children \<open>rest\<close>: an uppercase name outside the
  token map; a name of the token map with further children; a name that is not
  uppercase, is not \<open>any\<close>, does not start with an underscore and is no symbol of the
  target grammar.
\<close>

definition listed_syntax_errors :: "externals \<Rightarrow> string \<Rightarrow> tree list \<Rightarrow> bool" where
  "listed_syntax_errors g v rest =
     ((isupper v \<and> token_map g v = None) \<or>
      (isupper v \<and> token_map g v \<noteq> None \<and> rest \<noteq> []) \<or>
      (\<not> isupper v \<and> v \<noteq> ''any'' \<and> \<not> startswith v ''_'' \<and> symbols g v = None))"

lemma startswith_underscore_not_any: "startswith v ''_'' \<Longrightarrow> v \<noteq> ''any''"
  by (auto simp: startswith_def)

lemma symbol_type_underscore: "startswith v ''_'' \<Longrightarrow> symbol_type g v = Inr Unbound"
  by (auto simp: symbol_type_def startswith_def)

lemma details_content_Nil [simp]: "details_content g [] = Inr None"
  by (simp add: details_content_def)

lemma symbol_type_Inr:
  "(\<exists>ty. symbol_type g v = Inr ty) = (v = ''any'' \<or> startswith v ''_'' \<or> symbols g v \<noteq> None)"
  by (auto simp: symbol_type_def split: option.splits)

lemma symbol_type_Inl:
  "symbol_type g v = Inl e \<Longrightarrow>
   e = PatternSyntaxError (Invalid_symbol v) \<and> v \<noteq> ''any'' \<and> \<not> startswith v ''_'' \<and> symbols g v = None"
  by (auto simp: symbol_type_def split: option.splits if_splits)

lemma split_name_named:
  "rest \<noteq> [] \<Longrightarrow> split_name (Leaf t nm # Leaf EQUAL e # rest) = Inr (Some nm, rest)"
  by (cases rest) (simp_all add: split_name_def)

lemma split_name_unnamed:
  "(2 \<le> length nodes \<longrightarrow> type_of (nodes ! 1) \<noteq> Tok EQUAL) \<Longrightarrow> split_name nodes = Inr (None, nodes)"
  by (auto simp: split_name_def)

lemma split_repeat_append:
  "nodes \<noteq> [] \<Longrightarrow> type_of rep = Sym Repeater \<Longrightarrow> split_repeat (nodes @ [rep]) = (Some rep, nodes)"
  by (cases nodes) (simp_all add: split_repeat_def)

lemma split_repeat_none:
  "nodes \<noteq> [] \<Longrightarrow> type_of (last nodes) \<noteq> Sym Repeater \<Longrightarrow> split_repeat nodes = (None, nodes)"
  by (simp add: split_repeat_def)

lemma repeat_min_max_type: "repeat_min_max g rep = Inr b \<Longrightarrow> type_of rep = Sym Repeater"
  by (auto simp: repeat_min_max_def split: if_splits)

lemma repeat_min_max_STAR [simp]:
  "repeat_min_max g (Node Repeater (Leaf STAR s # cs)) = Inr (0, HUGE)"
  by (simp add: repeat_min_max_def)

lemma repeat_min_max_PLUS [simp]:
  "repeat_min_max g (Node Repeater (Leaf PLUS s # cs)) = Inr (1, HUGE)"
  by (simp add: repeat_min_max_def)

lemma get_int_NUMBER [simp]: "get_int (Leaf NUMBER ns) = py_int ns"
  by (simp add: get_int_def)

lemma repeat_min_max_braces1:
  "repeat_min_max g (Node Repeater [Leaf LBRACE l, cn, Leaf RBRACE r]) =
     (case get_int cn of Inl e \<Rightarrow> Inl e | Inr n \<Rightarrow> Inr (n, n))"
  by (simp add: repeat_min_max_def split: sum.splits)

lemma repeat_min_max_braces2:
  "repeat_min_max g (Node Repeater [Leaf LBRACE l, cn, sep, cm, Leaf RBRACE r]) =
     (case get_int cn of
        Inl e \<Rightarrow> Inl e
      | Inr n \<Rightarrow> (case get_int cm of Inl e \<Rightarrow> Inl e | Inr m \<Rightarrow> Inr (n, m)))"
  by (simp add: repeat_min_max_def split: sum.splits)

lemma py_int_digit:
  "py_int ''1'' = Inr 1" "py_int ''2'' = Inr 2" "py_int ''5'' = Inr 5"
  by (simp_all add: py_int_def strip_def isspace_char_def isdigit_char_def)

lemma isupper_NUMBER [simp]: "isupper ''NUMBER''"
  by (simp add: isupper_def isupper_char_def islower_char_def)

lemma token_map_NUMBER [simp]: "token_map g ''NUMBER'' = Some (Some (token_NUMBER g))"
  by (simp add: token_map_def)

lemma compile_basic_NUMBER_token [simp]:
  "compile_basic g [Leaf NAME ''NUMBER''] r = Inr (LeafPattern (Some (token_NUMBER g)) None None)"
  by (simp add: compile_basic_NAME)

lemma name_of_set_name [simp]: "name_of (set_name n p) = Some n"
  by (cases p) simp_all

lemma compile_node_Unit_repeat:
  "split_name cs = Inr (name, nodes1) \<Longrightarrow> split_repeat nodes1 = (Some rep, nodes) \<Longrightarrow>
   compile_basic g nodes (Some rep) = Inr p \<Longrightarrow> repeat_min_max g rep = Inr (mn, mx) \<Longrightarrow>
   compile_node g (Node Unit cs) =
     (if mn = 1 \<and> mx = 1 then Inr (optimize g (apply_name name p))
      else if 0 \<le> mn \<and> mn \<le> mx \<and> mx \<le> HUGE
      then Inr (optimize g (apply_name name (WildcardPattern [[optimize g p]] mn mx None)))
      else Inl AssertionError)"
  by (simp add: compile_node_Unit wrap_repeat_def WildcardPattern_init_def)

lemma compile_node_Unit_repeat_accepted:
  "split_name cs = Inr (name, nodes1) \<Longrightarrow> split_repeat nodes1 = (Some rep, nodes) \<Longrightarrow>
   compile_basic g nodes (Some rep) = Inr p \<Longrightarrow> repeat_min_max g rep = Inr (mn, mx) \<Longrightarrow>
   0 \<le> mn \<and> mn \<le> mx \<and> mx \<le> HUGE \<Longrightarrow>
   compile_node g (Node Unit cs) =
     Inr (optimize g (apply_name name
       (if mn = 1 \<and> mx = 1 then p else WildcardPattern [[optimize g p]] mn mx None)))"
  by (simp add: compile_node_Unit_repeat)

lemma compile_node_Unit_no_repeat:
  "split_name cs = Inr (name, nodes1) \<Longrightarrow> split_repeat nodes1 = (None, nodes) \<Longrightarrow>
   compile_node g (Node Unit cs) =
     (case compile_basic g nodes None of
        Inl e \<Rightarrow> Inl e
      | Inr p \<Rightarrow> Inr (optimize g (apply_name name p)))"
  by (simp add: compile_node_Unit split: sum.splits)

lemma compile_basic_repeat_irrelevant:
  "value_of (hd nodes) \<noteq> Inr ''['' \<Longrightarrow> compile_basic g nodes r = compile_basic g nodes r'"
proof (cases nodes)
  case Nil
  then show ?thesis by simp
next
  case (Cons node rest)
  assume h: "value_of (hd nodes) \<noteq> Inr ''[''"
  show ?thesis
  proof (cases node)
    case (Leaf t v)
    with h Cons have v: "v \<noteq> ''[''" by simp
    show ?thesis
    proof (cases "t = STRING \<or> t = NAME")
      case True
      then show ?thesis
        using Cons Leaf by (auto simp: compile_basic_STRING compile_basic_NAME)
    next
      case False
      then show ?thesis
        using Cons Leaf v by (simp add: compile_basic_other)
    qed
  next
    case (Node s cs)
    then show ?thesis using Cons by simp
  qed
qed

lemma wrap_repeat_one [simp]: "wrap_repeat g (1, 1) p = Inr p"
  by (simp add: wrap_repeat_def)

lemma compile_node_Unit_repeat_one:
  assumes sn: "split_name (cs @ [rep]) = Inr (name, basic @ [rep])"
    and sn': "split_name cs = Inr (name, basic)"
    and b: "basic \<noteq> []" and l: "type_of (last basic) \<noteq> Sym Repeater"
    and v: "value_of (hd basic) \<noteq> Inr ''[''"
    and r: "repeat_min_max g rep = Inr (1, 1)"
  shows "compile_node g (Node Unit (cs @ [rep])) = compile_node g (Node Unit cs)"
proof -
  have t: "type_of rep = Sym Repeater" using r by (rule repeat_min_max_type)
  have sr: "split_repeat (basic @ [rep]) = (Some rep, basic)"
    using b t by (rule split_repeat_append)
  have sr': "split_repeat basic = (None, basic)"
    using b l by (rule split_repeat_none)
  have cb: "compile_basic g basic (Some rep) = compile_basic g basic None"
    using v by (rule compile_basic_repeat_irrelevant)
  show ?thesis
    by (simp add: compile_node_Unit sn sn' sr sr' cb r split: sum.splits)
qed

section \<open>The claims\<close>

subsection \<open>Single alternatives and single units\<close>

text \<open>
  Claim C5. Compiling an \<open>Alternatives\<close> node with exactly one alternative returns that
  compiled alternative unchanged, and compiling an \<open>Alternative\<close> node with exactly one
  unit returns that compiled unit unchanged. Hence a pattern of one alternative of one
  unit compiles to what the unit alone compiles to, with no wildcard wrapper, also under
  the \<open>Matcher\<close> root the parser puts around the pattern.
\<close>

theorem C5_single_alternative_collapse:
  "compile_node g (Node Alternatives [a]) = compile_node g a \<and>
   compile_node g (Node Alternative [u]) = compile_node g u \<and>
   compile_node g (Node Alternatives [Node Alternative [u]]) = compile_node g u \<and>
   compile_node g (Node Matcher (Node Alternatives [Node Alternative [u]] # rest)) = compile_node g u"
  by (simp add: compile_node_Matcher)

subsection \<open>Negation\<close>

text \<open>
  Claim C7. Compiling a \<open>NegatedUnit\<close> node compiles the children after the leading
  negation token with \<open>compile_basic\<close> (with no repeater), wraps the result in a
  \<open>NegatedPattern\<close> and returns it optimized; an exception of \<open>compile_basic\<close> is passed
  on. For the pattern that negates the token name \<open>NAME\<close> the result is the optimized
  \<open>NegatedPattern\<close> of the leaf pattern of the lexical kind \<open>NAME\<close>.
\<close>

theorem C7_negated_unit:
  "compile_node g (Node NegatedUnit (neg # rest)) =
     (case compile_basic g rest None of
        Inl e \<Rightarrow> Inl e
      | Inr p \<Rightarrow> Inr (optimize g (NegatedPattern p None))) \<and>
   compile_node g (Node NegatedUnit [neg, Leaf NAME ''NAME'']) =
     Inr (optimize g (NegatedPattern (LeafPattern (Some (token_NAME g)) None None) None))"
  by simp

subsection \<open>Optional groups\<close>

text \<open>
  Claim C8. For a basic pattern that begins with a leaf \<^verbatim>\<open>[\<close> (a leaf that is neither
  a \<open>STRING\<close> nor a \<open>NAME\<close> token), compiled with no repeater, \<open>compile_basic\<close> compiles
  the child that follows and returns the \<open>WildcardPattern\<close> with the single alternative
  holding that one pattern, \<open>min = 0\<close> and \<open>max = 1\<close>, not optimized; an exception of the
  inner compilation is passed on. For \<^verbatim>\<open>[NAME]\<close> the inner pattern is the (optimized)
  leaf pattern of the lexical kind \<open>NAME\<close>.
\<close>

theorem C8_optional_group:
  "(t \<noteq> STRING \<longrightarrow> t \<noteq> NAME \<longrightarrow>
      compile_basic g (Leaf t ''['' # inner # rest) None =
        (case compile_node g inner of
           Inl e \<Rightarrow> Inl e
         | Inr sub \<Rightarrow> Inr (WildcardPattern [[sub]] 0 1 None))) \<and>
   (t \<noteq> STRING \<longrightarrow> t \<noteq> NAME \<longrightarrow>
      compile_basic g
        [Leaf t ''['', Node Alternatives [Node Alternative [Node Unit [Leaf NAME ''NAME'']]], close] None =
        Inr (WildcardPattern [[optimize g (LeafPattern (Some (token_NAME g)) None None)]] 0 1 None))"
  by (simp add: compile_basic_other compile_node_Unit_single cong: sum.case_cong)

theorem C8_optional_group_witness:
  "OtherToken 9 \<noteq> STRING \<and> OtherToken 9 \<noteq> NAME \<and>
   compile_basic sample
     [Leaf (OtherToken 9) ''['', Node Alternatives [Node Alternative [Node Unit [Leaf NAME ''NAME'']]],
      Leaf (OtherToken 10) '']''] None =
     Inr (WildcardPattern [[LeafPattern (Some 1) None None]] 0 1 None)"
  using C8_optional_group [of "OtherToken 9" sample "Leaf NAME ''x''" "[]" "Leaf (OtherToken 10) '']''"]
  by simp

subsection \<open>Names\<close>

text \<open>
  Claim C1 says that for a name that is not uppercase and starts with an underscore
  \<open>compile_basic\<close> succeeds and returns a node pattern with no symbol. The code does
  not: no branch of lines 159 to 164 assigns the local \<^verbatim>\<open>type\<close> for such a name, and
  line 169 reads it. With no further children the result is \<^verbatim>\<open>UnboundLocalError\<close>, and
  with any further children \<open>compile_basic\<close> returns no pattern either.
\<close>

theorem C1_underscore_name_unbound:
  "\<not> isupper v \<longrightarrow> startswith v ''_'' \<longrightarrow>
     compile_basic g [Leaf NAME v] r = Inl UnboundLocalError \<and>
     (\<forall>rest p. compile_basic g (Leaf NAME v # rest) r \<noteq> Inr p)"
  by (auto simp: compile_basic_NAME symbol_type_underscore split: sum.splits)

theorem C1_underscore_name_unbound_witness:
  "\<not> isupper ''_x'' \<and> startswith ''_x'' ''_'' \<and>
   compile_basic sample [Leaf NAME ''_x''] None = Inl UnboundLocalError \<and>
   compile_node sample (Node Unit [Leaf NAME ''_x'']) = Inl UnboundLocalError"
  using C1_underscore_name_unbound [of "''_x''" sample None]
  by (simp add: compile_node_Unit_single isupper_def isupper_char_def islower_char_def startswith_def)

text \<open>
  Claim C2, as amended. \<open>compile_basic\<close> on a \<open>NAME\<close> leaf raises
  \<^verbatim>\<open>PatternSyntaxError\<close> exactly when one of the three listed conditions holds, or
  when the name is not uppercase, passes the resolution of its symbol (it is \<open>any\<close>,
  starts with an underscore or is a symbol of the target grammar) and the compilation
  of the sub-pattern of its \<open>Details\<close> raises \<^verbatim>\<open>PatternSyntaxError\<close>.
\<close>

theorem C2_syntax_error_cases:
  "(\<exists>m. compile_basic g (Leaf NAME v # rest) r = Inl (PatternSyntaxError m)) =
     (listed_syntax_errors g v rest \<or>
      (\<not> isupper v \<and> (v = ''any'' \<or> startswith v ''_'' \<or> symbols g v \<noteq> None) \<and>
       (\<exists>m. details_content g rest = Inl (PatternSyntaxError m))))"
proof (cases "isupper v")
  case True
  then show ?thesis
    by (auto simp: compile_basic_NAME listed_syntax_errors_def split: option.splits)
next
  case False
  show ?thesis
  proof (cases "symbol_type g v")
    case (Inl e)
    from symbol_type_Inl [OF Inl] symbol_type_Inr [of g v] Inl False show ?thesis
      by (auto simp: compile_basic_NAME listed_syntax_errors_def)
  next
    case (Inr ty)
    then have ok: "v = ''any'' \<or> startswith v ''_'' \<or> symbols g v \<noteq> None"
      using symbol_type_Inr [of g v] by blast
    then have nl: "\<not> listed_syntax_errors g v rest"
      using False by (auto simp: listed_syntax_errors_def)
    show ?thesis
      using False Inr ok nl
      by (cases "details_content g rest"; cases ty) (auto simp: compile_basic_NAME)
  qed
qed

theorem C2_syntax_error_cases_witness:
  "(\<exists>m. compile_basic sample
     [Leaf NAME ''any'',
      Node Details [Leaf (OtherToken 21) ''<'',
                    Node Alternatives [Node Alternative [Node Unit [Leaf NAME ''FOO'']]],
                    Leaf (OtherToken 22) ''>'']] None = Inl (PatternSyntaxError m)) \<and>
   (\<exists>m. compile_basic sample [Leaf NAME ''frobnicate''] None = Inl (PatternSyntaxError m)) \<and>
   \<not> (\<exists>m. compile_basic sample [Leaf NAME ''expr''] None = Inl (PatternSyntaxError m))"
  using C2_syntax_error_cases [of sample "''any''"
      "[Node Details [Leaf (OtherToken 21) ''<'',
                    Node Alternatives [Node Alternative [Node Unit [Leaf NAME ''FOO'']]],
                    Leaf (OtherToken 22) ''>'']]" None]
    C2_syntax_error_cases [of sample "''frobnicate''" "[]" None]
    C2_syntax_error_cases [of sample "''expr''" "[]" None]
  by (simp add: compile_basic_NAME compile_node_Unit_single details_content_def symbol_type_def
      listed_syntax_errors_def token_map_def isupper_def isupper_char_def islower_char_def
      startswith_def)

text \<open>
  The claim C2 as stated fails: the pattern \<^verbatim>\<open>any<FOO>\<close> raises
  \<^verbatim>\<open>PatternSyntaxError\<close>, from the compilation of its details, and the name \<open>any\<close>
  meets none of the three listed conditions.
\<close>

theorem C2_details_error_counterexample:
  "compile_basic sample
     [Leaf NAME ''any'',
      Node Details [Leaf (OtherToken 21) ''<'',
                    Node Alternatives [Node Alternative [Node Unit [Leaf NAME ''FOO'']]],
                    Leaf (OtherToken 22) ''>'']] None =
     Inl (PatternSyntaxError (Invalid_token ''FOO'')) \<and>
   \<not> listed_syntax_errors sample ''any''
     [Node Details [Leaf (OtherToken 21) ''<'',
                    Node Alternatives [Node Alternative [Node Unit [Leaf NAME ''FOO'']]],
                    Leaf (OtherToken 22) ''>'']]"
  by (simp add: compile_basic_NAME compile_node_Unit_single details_content_def symbol_type_def
      listed_syntax_errors_def token_map_def isupper_def isupper_char_def islower_char_def)

subsection \<open>String literals\<close>

text \<open>
  Claim C9 says that every \<open>STRING\<close> basic pattern compiles to a leaf pattern whose
  value is the evaluated literal and whose kind is the lexical kind \<open>NAME\<close> when the
  value starts with a letter and the entry of the operator table otherwise. The code
  does so for every literal that evaluates to a non-empty string; for the empty string
  \<^verbatim>\<open>value[0]\<close> of line 184 raises \<^verbatim>\<open>IndexError\<close>.
\<close>

theorem C9_string_literal:
  "compile_basic g (Leaf STRING v # rest) r =
     (case evalString g v of
        Inl e \<Rightarrow> Inl e
      | Inr s \<Rightarrow>
          (case s of
             [] \<Rightarrow> Inl IndexError
           | c # cs \<Rightarrow>
               Inr (LeafPattern (if isalpha_char c then Some (token_NAME g) else opmap g s)
                      (Some s) None)))"
  by (simp add: compile_basic_STRING type_of_literal_def split: sum.splits list.splits)

text \<open>
  Claim C10 says that a \<open>STRING\<close> basic pattern whose value does not start with a
  letter and is not in the operator table raises nothing and compiles to a leaf pattern
  with no kind and that value. The code does so when the value is not empty; the
  empty value raises \<^verbatim>\<open>IndexError\<close>.
\<close>

theorem C10_unknown_operator_literal:
  "evalString g v = Inr s \<longrightarrow> (s = [] \<or> \<not> isalpha_char (hd s)) \<longrightarrow> opmap g s = None \<longrightarrow>
     compile_basic g (Leaf STRING v # rest) r =
       (if s = [] then Inl IndexError else Inr (LeafPattern None (Some s) None))"
  by (auto simp: compile_basic_STRING type_of_literal_def split: sum.splits list.splits)

theorem C10_unknown_operator_literal_witness:
  "evalString sample [CHR 0x27, CHR 0x27] = Inr [] \<and> opmap sample [] = None \<and>
   compile_basic sample [Leaf STRING [CHR 0x27, CHR 0x27]] None = Inl IndexError \<and>
   evalString sample [CHR 0x27, CHR ''@'', CHR 0x27] = Inr ''@'' \<and> \<not> isalpha_char (hd ''@'') \<and>
   opmap sample ''@'' = None \<and>
   compile_basic sample [Leaf STRING [CHR 0x27, CHR ''@'', CHR 0x27]] None =
     Inr (LeafPattern None (Some ''@'') None)"
  using C10_unknown_operator_literal [of sample "[CHR 0x27, CHR 0x27]" "[]" "[]" None]
    C10_unknown_operator_literal [of sample "[CHR 0x27, CHR ''@'', CHR 0x27]" "''@''" "[]" None]
  by (simp add: isalpha_char_def isupper_char_def islower_char_def)

subsection \<open>Repeaters and capture names\<close>

text \<open>
  Claim C3, as amended. The bounds of a repeater are \<open>(0, HUGE)\<close> for \<^verbatim>\<open>*\<close>,
  \<open>(1, HUGE)\<close> for \<^verbatim>\<open>+\<close>, \<open>(n, n)\<close> for \<^verbatim>\<open>{n}\<close> and \<open>(n, m)\<close> for \<^verbatim>\<open>{n,m}\<close>;
  \<open>compile_node\<close> itself compares \<open>n\<close> and \<open>m\<close> nowhere. For every unit whose children
  end in a repeater (after the capture name is taken off), whose basic pattern compiles
  to \<open>p\<close> and whose repeater has the bounds \<open>(mn, mx)\<close>: when \<open>mn = mx = 1\<close> nothing is
  wrapped; otherwise, when \<open>0 \<le> mn \<le> mx \<le> HUGE\<close>, \<open>p\<close> is optimized and wrapped as the
  \<open>WildcardPattern\<close> with the one alternative \<open>[p]\<close> and these bounds, before the name is
  set and the result optimized; and on any other bounds, so whenever \<open>n > m\<close>, the
  constructor of the wrapper raises \<^verbatim>\<open>AssertionError\<close> and no pattern is returned.
\<close>

theorem C3_repeat_bounds:
  "repeat_min_max g (Node Repeater (Leaf STAR s # cs)) = Inr (0, HUGE) \<and>
   repeat_min_max g (Node Repeater (Leaf PLUS s # cs)) = Inr (1, HUGE) \<and>
   (py_int ns = Inr n \<longrightarrow>
      repeat_min_max g (Node Repeater [Leaf LBRACE l, Leaf NUMBER ns, Leaf RBRACE r]) = Inr (n, n)) \<and>
   (py_int ns = Inr n \<longrightarrow> py_int ms = Inr m \<longrightarrow>
      repeat_min_max g
        (Node Repeater [Leaf LBRACE l, Leaf NUMBER ns, sep, Leaf NUMBER ms, Leaf RBRACE r]) =
        Inr (n, m)) \<and>
   (split_name children = Inr (name, nodes1) \<longrightarrow> split_repeat nodes1 = (Some rep, nodes) \<longrightarrow>
    compile_basic g nodes (Some rep) = Inr p \<longrightarrow> repeat_min_max g rep = Inr (mn, mx) \<longrightarrow>
      compile_node g (Node Unit children) =
        (if mn = 1 \<and> mx = 1 then Inr (optimize g (apply_name name p))
         else if 0 \<le> mn \<and> mn \<le> mx \<and> mx \<le> HUGE
         then Inr (optimize g (apply_name name (WildcardPattern [[optimize g p]] mn mx None)))
         else Inl AssertionError))"
  by (simp add: repeat_min_max_braces1 repeat_min_max_braces2 compile_node_Unit_repeat)

theorem C3_repeat_bounds_witness:
  "py_int ''2'' = Inr 2 \<and> py_int ''5'' = Inr 5 \<and>
   repeat_min_max sample (Node Repeater [Leaf LBRACE ''{'', Leaf NUMBER ''2'', Leaf RBRACE ''}'']) =
     Inr (2, 2) \<and>
   repeat_min_max sample
     (Node Repeater [Leaf LBRACE ''{'', Leaf NUMBER ''2'', Leaf (OtherToken 12) '','',
                     Leaf NUMBER ''5'', Leaf RBRACE ''}'']) = Inr (2, 5) \<and>
   compile_node sample
     (Node Unit [Leaf NAME ''NUMBER'',
                 Node Repeater [Leaf LBRACE ''{'', Leaf NUMBER ''2'', Leaf (OtherToken 12) '','',
                                Leaf NUMBER ''5'', Leaf RBRACE ''}'']]) =
     Inr (WildcardPattern [[LeafPattern (Some 2) None None]] 2 5 None) \<and>
   compile_node sample
     (Node Unit [Leaf NAME ''NUMBER'',
                 Node Repeater [Leaf LBRACE ''{'', Leaf NUMBER ''5'', Leaf (OtherToken 12) '','',
                                Leaf NUMBER ''2'', Leaf RBRACE ''}'']]) =
     Inl AssertionError"
  using C3_repeat_bounds [of sample "''*''" "[]" "''2''" 2 "''{''" "''}''" "''5''" 5
      "Leaf (OtherToken 12) '',''"
      "[Leaf NAME ''NUMBER'',
        Node Repeater [Leaf LBRACE ''{'', Leaf NUMBER ''2'', Leaf (OtherToken 12) '','',
                       Leaf NUMBER ''5'', Leaf RBRACE ''}'']]"
      None
      "[Leaf NAME ''NUMBER'',
        Node Repeater [Leaf LBRACE ''{'', Leaf NUMBER ''2'', Leaf (OtherToken 12) '','',
                       Leaf NUMBER ''5'', Leaf RBRACE ''}'']]"
      "Node Repeater [Leaf LBRACE ''{'', Leaf NUMBER ''2'', Leaf (OtherToken 12) '','',
                       Leaf NUMBER ''5'', Leaf RBRACE ''}'']"
      "[Leaf NAME ''NUMBER'']" "LeafPattern (Some 2) None None" 2 5]
    C3_repeat_bounds [of sample "''*''" "[]" "''5''" 5 "''{''" "''}''" "''2''" 2
      "Leaf (OtherToken 12) '',''"
      "[Leaf NAME ''NUMBER'',
        Node Repeater [Leaf LBRACE ''{'', Leaf NUMBER ''5'', Leaf (OtherToken 12) '','',
                       Leaf NUMBER ''2'', Leaf RBRACE ''}'']]"
      None
      "[Leaf NAME ''NUMBER'',
        Node Repeater [Leaf LBRACE ''{'', Leaf NUMBER ''5'', Leaf (OtherToken 12) '','',
                       Leaf NUMBER ''2'', Leaf RBRACE ''}'']]"
      "Node Repeater [Leaf LBRACE ''{'', Leaf NUMBER ''5'', Leaf (OtherToken 12) '','',
                       Leaf NUMBER ''2'', Leaf RBRACE ''}'']"
      "[Leaf NAME ''NUMBER'']" "LeafPattern (Some 2) None None" 5 2]
  by (simp add: py_int_digit split_name_def split_repeat_def apply_name_def
      repeat_min_max_braces2 HUGE_def)

text \<open>
  The claim C3 as stated fails: for \<^verbatim>\<open>NUMBER{5,2}\<close> the bounds are \<open>(5, 2)\<close> and the
  unit does not compile to a \<open>WildcardPattern\<close> with these bounds, but raises
  \<^verbatim>\<open>AssertionError\<close>.
\<close>

theorem C3_reversed_bounds_counterexample:
  "repeat_min_max sample
     (Node Repeater [Leaf LBRACE ''{'', Leaf NUMBER ''5'', Leaf (OtherToken 12) '','',
                     Leaf NUMBER ''2'', Leaf RBRACE ''}'']) = Inr (5, 2) \<and>
   compile_node sample
     (Node Unit [Leaf NAME ''NUMBER'',
                 Node Repeater [Leaf LBRACE ''{'', Leaf NUMBER ''5'', Leaf (OtherToken 12) '','',
                                Leaf NUMBER ''2'', Leaf RBRACE ''}'']]) =
     Inl AssertionError \<and>
   compile_node sample
     (Node Unit [Leaf NAME ''NUMBER'',
                 Node Repeater [Leaf LBRACE ''{'', Leaf NUMBER ''5'', Leaf (OtherToken 12) '','',
                                Leaf NUMBER ''2'', Leaf RBRACE ''}'']]) \<noteq>
     Inr (WildcardPattern [[LeafPattern (Some 2) None None]] 5 2 None)"
  by (simp add: compile_node_Unit py_int_digit split_name_def split_repeat_def
      repeat_min_max_braces2 wrap_repeat_def WildcardPattern_init_def)

text \<open>
  Claim C4. For a unit with a \<^verbatim>\<open>name =\<close> prefix the name is set on the pattern that
  stands for the whole unit: on the compiled basic pattern when there is no repeater,
  and on the pattern after the repeat wrapping when there is one (with bounds the
  constructor of the wrapper accepts); that pattern is then optimized. For
  \<^verbatim>\<open>y=NUMBER*\<close> the name \<open>y\<close> is on the \<open>WildcardPattern\<close> with the bounds
  \<open>(0, HUGE)\<close>, and the leaf pattern inside has no name. Setting a name on a pattern
  makes it the name of that pattern, whatever its variant.
\<close>

theorem C4_name_binds_outermost:
  "(rest \<noteq> [] \<longrightarrow> split_repeat rest = (None, nodes) \<longrightarrow> compile_basic g nodes None = Inr p \<longrightarrow>
      compile_node g (Node Unit (Leaf t nm # Leaf EQUAL e # rest)) =
        Inr (optimize g (set_name nm p))) \<and>
   (rest \<noteq> [] \<longrightarrow> split_repeat rest = (Some rep, nodes) \<longrightarrow>
    compile_basic g nodes (Some rep) = Inr p \<longrightarrow> repeat_min_max g rep = Inr (mn, mx) \<longrightarrow>
    0 \<le> mn \<and> mn \<le> mx \<and> mx \<le> HUGE \<longrightarrow>
      compile_node g (Node Unit (Leaf t nm # Leaf EQUAL e # rest)) =
        Inr (optimize g (set_name nm
          (if mn = 1 \<and> mx = 1 then p else WildcardPattern [[optimize g p]] mn mx None)))) \<and>
   compile_node g
     (Node Unit [Leaf NAME ''y'', Leaf EQUAL ''='', Leaf NAME ''NUMBER'',
                 Node Repeater [Leaf STAR ''*'']]) =
     Inr (optimize g
       (WildcardPattern [[optimize g (LeafPattern (Some (token_NUMBER g)) None None)]] 0 HUGE
          (Some ''y''))) \<and>
   name_of (set_name nm q) = Some nm"
proof (intro conjI impI)
  assume "rest \<noteq> []" and "split_repeat rest = (None, nodes)" and "compile_basic g nodes None = Inr p"
  then show "compile_node g (Node Unit (Leaf t nm # Leaf EQUAL e # rest)) =
      Inr (optimize g (set_name nm p))"
    using compile_node_Unit_no_repeat [of "Leaf t nm # Leaf EQUAL e # rest" "Some nm" rest nodes g]
    by (simp add: split_name_named apply_name_def)
next
  assume "rest \<noteq> []" and "split_repeat rest = (Some rep, nodes)"
    and "compile_basic g nodes (Some rep) = Inr p" and "repeat_min_max g rep = Inr (mn, mx)"
    and "0 \<le> mn \<and> mn \<le> mx \<and> mx \<le> HUGE"
  then show "compile_node g (Node Unit (Leaf t nm # Leaf EQUAL e # rest)) =
      Inr (optimize g (set_name nm
        (if mn = 1 \<and> mx = 1 then p else WildcardPattern [[optimize g p]] mn mx None)))"
    using compile_node_Unit_repeat_accepted
      [of "Leaf t nm # Leaf EQUAL e # rest" "Some nm" rest rep nodes g p mn mx]
    by (simp add: split_name_named apply_name_def)
next
  have "split_repeat [Leaf NAME ''NUMBER'', Node Repeater [Leaf STAR ''*'']] =
      (Some (Node Repeater [Leaf STAR ''*'']), [Leaf NAME ''NUMBER''])"
    by (simp add: split_repeat_def)
  then show "compile_node g
     (Node Unit [Leaf NAME ''y'', Leaf EQUAL ''='', Leaf NAME ''NUMBER'',
                 Node Repeater [Leaf STAR ''*'']]) =
     Inr (optimize g
       (WildcardPattern [[optimize g (LeafPattern (Some (token_NUMBER g)) None None)]] 0 HUGE
          (Some ''y'')))"
    using compile_node_Unit_repeat_accepted
      [of "[Leaf NAME ''y'', Leaf EQUAL ''='', Leaf NAME ''NUMBER'', Node Repeater [Leaf STAR ''*'']]"
          "Some ''y''" "[Leaf NAME ''NUMBER'', Node Repeater [Leaf STAR ''*'']]"
          "Node Repeater [Leaf STAR ''*'']" "[Leaf NAME ''NUMBER'']" g
          "LeafPattern (Some (token_NUMBER g)) None None" 0 HUGE]
    by (simp add: split_name_named apply_name_def HUGE_def)
next
  show "name_of (set_name nm q) = Some nm" by simp
qed

theorem C4_name_binds_outermost_witness:
  "split_repeat [Leaf NAME ''NUMBER'', Node Repeater [Leaf STAR ''*'']] =
     (Some (Node Repeater [Leaf STAR ''*'']), [Leaf NAME ''NUMBER'']) \<and>
   compile_node sample
     (Node Unit [Leaf NAME ''y'', Leaf EQUAL ''='', Leaf NAME ''NUMBER'',
                 Node Repeater [Leaf STAR ''*'']]) =
     Inr (WildcardPattern [[LeafPattern (Some 2) None None]] 0 2147483647 (Some ''y'')) \<and>
   split_repeat [Leaf NAME ''NUMBER''] = (None, [Leaf NAME ''NUMBER'']) \<and>
   compile_node sample (Node Unit [Leaf NAME ''y'', Leaf EQUAL ''='', Leaf NAME ''NUMBER'']) =
     Inr (LeafPattern (Some 2) None (Some ''y''))"
  using C4_name_binds_outermost [of "[Leaf NAME ''NUMBER'', Node Repeater [Leaf STAR ''*'']]"
      "[Leaf NAME ''NUMBER'']" sample "LeafPattern (Some 2) None None" NAME "''y''" "''=''"
      "Node Repeater [Leaf STAR ''*'']" 0 2147483647]
    C4_name_binds_outermost [of "[Leaf NAME ''NUMBER'']"
      "[Leaf NAME ''NUMBER'']" sample "LeafPattern (Some 2) None None" NAME "''y''" "''=''"]
  by (simp add: split_repeat_def HUGE_def)

text \<open>
  Claim C6. Take a unit with an optional capture name and a basic pattern that is not
  an optional group in brackets, does not itself end in a repeater and, without a name,
  has no \<^verbatim>\<open>=\<close> as its second child. With the repeater \<^verbatim>\<open>{1,1}\<close> appended, or any
  repeater whose bounds are \<open>(1, 1)\<close>, the unit compiles to the same result as without
  it: no \<open>WildcardPattern\<close> is added around the basic pattern.
\<close>

theorem C6_repeat_one_one:
  assumes "basic \<noteq> []" and "type_of (last basic) \<noteq> Sym Repeater"
    and "value_of (hd basic) \<noteq> Inr ''[''"
    and "pre = [] \<and> (2 \<le> length basic \<longrightarrow> type_of (basic ! 1) \<noteq> Tok EQUAL) \<or>
         pre = [Leaf t nm, Leaf EQUAL e]"
  shows "compile_node g
           (Node Unit (pre @ basic @
              [Node Repeater [Leaf LBRACE l, Leaf NUMBER ''1'', sep, Leaf NUMBER ''1'', Leaf RBRACE r]])) =
           compile_node g (Node Unit (pre @ basic)) \<and>
         (\<forall>rep. repeat_min_max g rep = Inr (1, 1) \<longrightarrow>
            compile_node g (Node Unit (pre @ basic @ [rep])) = compile_node g (Node Unit (pre @ basic)))"
proof -
  have gen: "compile_node g (Node Unit (pre @ basic @ [rep])) = compile_node g (Node Unit (pre @ basic))"
    if r: "repeat_min_max g rep = Inr (1, 1)" for rep
  proof -
    have t: "type_of rep = Sym Repeater" using r by (rule repeat_min_max_type)
    from assms(4) show ?thesis
    proof
      assume u: "pre = [] \<and> (2 \<le> length basic \<longrightarrow> type_of (basic ! 1) \<noteq> Tok EQUAL)"
      have "2 \<le> length (basic @ [rep]) \<longrightarrow> type_of ((basic @ [rep]) ! 1) \<noteq> Tok EQUAL"
        using u t assms(1) by (cases basic; cases "tl basic") auto
      then have sn: "split_name (basic @ [rep]) = Inr (None, basic @ [rep])"
        by (rule split_name_unnamed)
      have sn': "split_name basic = Inr (None, basic)"
        using u by (intro split_name_unnamed) simp
      show ?thesis
        using compile_node_Unit_repeat_one [OF sn sn' assms(1) assms(2) assms(3) r] u by simp
    next
      assume n: "pre = [Leaf t nm, Leaf EQUAL e]"
      have sn: "split_name ((pre @ basic) @ [rep]) = Inr (Some nm, basic @ [rep])"
        using n by (simp add: split_name_named)
      have sn': "split_name (pre @ basic) = Inr (Some nm, basic)"
        using n assms(1) by (simp add: split_name_named)
      show ?thesis
        using compile_node_Unit_repeat_one [OF sn sn' assms(1) assms(2) assms(3) r] by simp
    qed
  qed
  have "repeat_min_max g
      (Node Repeater [Leaf LBRACE l, Leaf NUMBER ''1'', sep, Leaf NUMBER ''1'', Leaf RBRACE r]) =
      Inr (1, 1)"
    by (simp add: repeat_min_max_braces2 py_int_digit)
  with gen show ?thesis by blast
qed

theorem C6_repeat_one_one_witness:
  "[Leaf NAME ''NUMBER''] \<noteq> [] \<and> type_of (last [Leaf NAME ''NUMBER'']) \<noteq> Sym Repeater \<and>
   value_of (hd [Leaf NAME ''NUMBER'']) \<noteq> Inr ''['' \<and>
   compile_node sample
     (Node Unit [Leaf NAME ''NUMBER'',
        Node Repeater [Leaf LBRACE ''{'', Leaf NUMBER ''1'', Leaf (OtherToken 12) '','',
                       Leaf NUMBER ''1'', Leaf RBRACE ''}'']]) =
     Inr (LeafPattern (Some 2) None None) \<and>
   compile_node sample (Node Unit [Leaf NAME ''NUMBER'']) = Inr (LeafPattern (Some 2) None None) \<and>
   compile_node sample
     (Node Unit [Leaf NAME ''y'', Leaf EQUAL ''='', Leaf NAME ''NUMBER'',
        Node Repeater [Leaf LBRACE ''{'', Leaf NUMBER ''1'', Leaf (OtherToken 12) '','',
                       Leaf NUMBER ''1'', Leaf RBRACE ''}'']]) =
     Inr (LeafPattern (Some 2) None (Some ''y''))"
  using C6_repeat_one_one [of "[Leaf NAME ''NUMBER'']" "[]" NAME "''y''" "''=''" sample "''{''"
      "Leaf (OtherToken 12) '',''" "''}''"]
    C6_repeat_one_one [of "[Leaf NAME ''NUMBER'']" "[Leaf NAME ''y'', Leaf EQUAL ''='']" NAME "''y''"
      "''=''" sample "''{''" "Leaf (OtherToken 12) '',''" "''}''"]
  by (simp add: compile_node_Unit_single compile_node_Unit_no_repeat [OF split_name_named]
      split_repeat_def apply_name_def)

end
